theory Spec2Isabelle
  imports Complex_Main
begin

section \<open>Python and NumPy primitives used by the two scripts\<close>

text \<open>
  Both scripts compute with Python numbers and one-dimensional NumPy arrays. Numbers are
  modelled as exact reals (the idealisation the specification itself names "exact
  arithmetic"), arrays as lists of reals, and every exception the scripts can raise as a
  value of \<open>py_error\<close> on the left of a sum. Where a property depends on rounding, the
  battery simulation is modelled a second time in double precision.
\<close>

datatype py_error = ZeroDivisionError | ValueError | IndexError

text \<open>Sequencing of fallible steps: the first exception aborts the function.\<close>

definition raise_or :: "py_error + 'a \<Rightarrow> ('a \<Rightarrow> py_error + 'b) \<Rightarrow> py_error + 'b" where
  "raise_or r f = (case r of Inl e \<Rightarrow> Inl e | Inr v \<Rightarrow> f v)"

text \<open>\<^verbatim>\<open>a / b\<close> on Python numbers raises on a zero divisor.\<close>

definition py_truediv :: "real \<Rightarrow> real \<Rightarrow> py_error + real" where
  "py_truediv a b = (if b = 0 then Inl ZeroDivisionError else Inr (a / b))"

text \<open>\<^verbatim>\<open>int(x)\<close> truncates toward zero.\<close>

definition py_int :: "real \<Rightarrow> int" where
  "py_int x = (if 0 \<le> x then \<lfloor>x\<rfloor> else \<lceil>x\<rceil>)"

text \<open>\<^verbatim>\<open>xs[i]\<close> for an index produced by \<^verbatim>\<open>range\<close> (never negative).\<close>

definition py_getitem :: "real list \<Rightarrow> nat \<Rightarrow> py_error + real" where
  "py_getitem xs i = (if i < length xs then Inr (xs ! i) else Inl IndexError)"

text \<open>
  \<^verbatim>\<open>np.linspace(start, stop, num)\<close> with the default \<^verbatim>\<open>endpoint=True\<close>: \<open>num\<close> samples
  with spacing \<open>(stop - start) / (num - 1)\<close>, the last one being \<open>stop\<close>; a single sample
  is \<open>start\<close>; a negative count raises.
\<close>

definition np_linspace :: "real \<Rightarrow> real \<Rightarrow> int \<Rightarrow> py_error + real list" where
  "np_linspace start stop num =
     (if num < 0 then Inl ValueError
      else if num = 1 then Inr [start]
      else Inr (map (\<lambda>i. start + real i * ((stop - start) / real_of_int (num - 1)))
                  [0..<nat num]))"

text \<open>\<^verbatim>\<open>np.full(n, v)\<close>: negative dimensions are not allowed.\<close>

definition np_full :: "int \<Rightarrow> real \<Rightarrow> py_error + real list" where
  "np_full n v = (if n < 0 then Inl ValueError else Inr (replicate (nat n) v))"

text \<open>\<^verbatim>\<open>np.arange(n)\<close>: empty for a non-positive \<open>n\<close>.\<close>

definition np_arange :: "int \<Rightarrow> real list" where
  "np_arange n = map real [0..<nat n]"

text \<open>
  An elementwise binary operation on two one-dimensional arrays, with NumPy's
  broadcasting: equal lengths combine pointwise, a length-one array is stretched, any
  other pair of shapes raises.
\<close>

definition np_elementwise ::
  "(real \<Rightarrow> real \<Rightarrow> real) \<Rightarrow> real list \<Rightarrow> real list \<Rightarrow> py_error + real list" where
  "np_elementwise f xs ys =
     (if length xs = length ys then Inr (map2 f xs ys)
      else if length xs = 1 then Inr (map (f (hd xs)) ys)
      else if length ys = 1 then Inr (map (\<lambda>x. f x (hd ys)) xs)
      else Inl ValueError)"

text \<open>\<^verbatim>\<open>np.dot\<close> of two one-dimensional arrays: the lengths must agree.\<close>

definition np_dot :: "real list \<Rightarrow> real list \<Rightarrow> py_error + real" where
  "np_dot xs ys =
     (if length xs = length ys then Inr (sum_list (map2 (*) xs ys)) else Inl ValueError)"

text \<open>\<^verbatim>\<open>np.maximum(a, 0)\<close> on an array.\<close>

definition np_maximum0 :: "real list \<Rightarrow> real list" where
  "np_maximum0 xs = map (\<lambda>x. max x 0) xs"


section \<open>battery\_simulation.py\<close>

text \<open>The five arrays \<^verbatim>\<open>simulate_battery_scenario\<close> returns, in order.\<close>

record sim_result =
  time_minutes :: "real list"
  soc_history_kwh :: "real list"
  regen_power_profile :: "real list"
  solar_power_profile :: "real list"
  net_power_profile :: "real list"

text \<open>
  The body of \<^verbatim>\<open>for i in range(steps)\<close>, as a recursion over the indices still to
  visit. The loop state is \<^verbatim>\<open>(soc_wh, soc_history_wh, net_power_profile)\<close>.
\<close>

fun sim_loop ::
  "real list \<Rightarrow> real list \<Rightarrow> real list \<Rightarrow> real \<Rightarrow> real \<Rightarrow> nat list \<Rightarrow>
   real \<times> real list \<times> real list \<Rightarrow> py_error + real \<times> real list \<times> real list" where
  "sim_loop regen solar consumption dt_sec battery_capacity_wh [] st = Inr st"
| "sim_loop regen solar consumption dt_sec battery_capacity_wh (i # rest)
     (soc_wh, soc_history_wh, net_power) =
     raise_or (py_getitem regen i) (\<lambda>regen_w.
     raise_or (py_getitem solar i) (\<lambda>solar_w.
     raise_or (py_getitem consumption i) (\<lambda>consumption_w.
       let energy_in_wh = (regen_w + solar_w) * (dt_sec / 3600);
           energy_out_wh = consumption_w * (dt_sec / 3600);
           net_energy_change_wh = energy_in_wh - energy_out_wh;
           soc_wh1 = soc_wh + net_energy_change_wh;
           soc_wh2 = min (max soc_wh1 0) battery_capacity_wh
       in sim_loop regen solar consumption dt_sec battery_capacity_wh rest
            (soc_wh2, soc_history_wh @ [soc_wh2],
             net_power @ [regen_w + solar_w - consumption_w]))))"

text \<open>The sinusoidal braking profile synthesised when none is supplied.\<close>

definition default_regen :: "real \<Rightarrow> int \<Rightarrow> py_error + real list" where
  "default_regen total_time_sec steps =
     raise_or (np_linspace 0 total_time_sec steps) (\<lambda>time_array.
       Inr (map (\<lambda>t. 75 * (1 + sin (2 * pi * t / 600))) time_array))"

definition simulate_battery_scenario ::
  "real \<Rightarrow> real \<Rightarrow> real \<Rightarrow> real \<Rightarrow> real list option \<Rightarrow> real \<Rightarrow> real \<Rightarrow>
   py_error + sim_result" where
  "simulate_battery_scenario battery_capacity_kwh initial_soc_percent total_time_sec dt_sec
     regen_arg solar_power_w consumption_power_w =
     (let battery_capacity_wh = battery_capacity_kwh * 1000;
          soc_wh = (initial_soc_percent / 100) * battery_capacity_wh
      in raise_or (py_truediv total_time_sec dt_sec) (\<lambda>q.
         let steps = py_int q
         in raise_or (case regen_arg of
                        None \<Rightarrow> default_regen total_time_sec steps
                      | Some profile \<Rightarrow> Inr profile) (\<lambda>regen.
            raise_or (np_full steps solar_power_w) (\<lambda>solar.
            raise_or (np_full steps consumption_power_w) (\<lambda>consumption.
            raise_or (sim_loop regen solar consumption dt_sec battery_capacity_wh
                        [0..<nat steps] (soc_wh, [], [])) (\<lambda>(soc_end, soc_history_wh, net_power).
              Inr \<lparr> time_minutes = map (\<lambda>k. k * dt_sec / 60) (np_arange steps),
                    soc_history_kwh = map (\<lambda>x. x / 1000) soc_history_wh,
                    regen_power_profile = regen,
                    solar_power_profile = solar,
                    net_power_profile = net_power \<rparr>))))))"


text \<open>
  The specification's description of the same loop, written independently of the code:
  the clamp as a three-way case distinction, and the state of charge (in Wh) after
  \<open>k\<close> steps as a recursion on \<open>k\<close> with constant solar and consumption power.
\<close>

definition clamp_spec :: "real \<Rightarrow> real \<Rightarrow> real \<Rightarrow> real" where
  "clamp_spec x lo hi = (if x < lo then lo else if hi < x then hi else x)"

fun soc_spec :: "real list \<Rightarrow> real \<Rightarrow> real \<Rightarrow> real \<Rightarrow> real \<Rightarrow> real \<Rightarrow> nat \<Rightarrow> real" where
  "soc_spec regen solar_w consumption_w dt_sec capacity_wh soc0 0 = soc0"
| "soc_spec regen solar_w consumption_w dt_sec capacity_wh soc0 (Suc k) =
     clamp_spec (soc_spec regen solar_w consumption_w dt_sec capacity_wh soc0 k
                 + (regen ! k + solar_w) * (dt_sec / 3600) - consumption_w * (dt_sec / 3600))
       0 capacity_wh"


text \<open>The four outputs that describe power and time, as opposed to stored energy.\<close>

definition power_outputs :: "sim_result \<Rightarrow> real list \<times> real list \<times> real list \<times> real list" where
  "power_outputs r =
     (time_minutes r, regen_power_profile r, solar_power_profile r, net_power_profile r)"


section \<open>battery\_simulation.py in double precision\<close>

text \<open>
  Python floats and NumPy's \<^verbatim>\<open>float64\<close> are IEEE 754 binary64 numbers: every arithmetic
  result is the exact result rounded to the nearest number with a 53-bit significand,
  ties going to the even significand. A double is modelled as the real number it
  denotes. Overflow to infinity and NaN are not modelled.
\<close>

text \<open>Rounding to the nearest integer, ties to even.\<close>

definition round_half_even :: "real \<Rightarrow> int" where
  "round_half_even x =
     (let f = \<lfloor>x\<rfloor>; d = x - of_int f
      in if d < 1 / 2 then f else if 1 / 2 < d then f + 1 else if even f then f else f + 1)"

text \<open>
  The binary exponent \<open>e\<close> of a positive number, \<open>2 ^ e \<le> x < 2 ^ (e + 1)\<close>, found by
  halving or doubling. The fuel bounds the search; 1100 steps cover every exponent a
  finite double can have (from -1074 to 1023).
\<close>

fun binade :: "nat \<Rightarrow> real \<Rightarrow> int" where
  "binade 0 x = 0"
| "binade (Suc fuel) x =
     (if 2 \<le> x then binade fuel (x / 2) + 1
      else if x < 1 then binade fuel (x * 2) - 1
      else 0)"

text \<open>
  The nearest double: the spacing of doubles around \<open>x\<close> is \<open>2 ^ (e - 52)\<close>, and
  \<open>2 ^ (- 1074)\<close> in the subnormal range below \<open>2 ^ (- 1022)\<close>.
\<close>

definition round_binary64 :: "real \<Rightarrow> real" where
  "round_binary64 x =
     (let e = max (binade 1100 \<bar>x\<bar>) (- 1022);
          ulp = (if 52 \<le> e then 2 ^ nat (e - 52) else 1 / 2 ^ nat (52 - e))
      in of_int (round_half_even (x / ulp)) * ulp)"

text \<open>The four arithmetic operations on doubles.\<close>

definition f64_add :: "real \<Rightarrow> real \<Rightarrow> real" where
  "f64_add x y = round_binary64 (x + y)"

definition f64_sub :: "real \<Rightarrow> real \<Rightarrow> real" where
  "f64_sub x y = round_binary64 (x - y)"

definition f64_mul :: "real \<Rightarrow> real \<Rightarrow> real" where
  "f64_mul x y = round_binary64 (x * y)"

definition f64_div :: "real \<Rightarrow> real \<Rightarrow> real" where
  "f64_div x y = round_binary64 (x / y)"

definition py_truediv_f64 :: "real \<Rightarrow> real \<Rightarrow> py_error + real" where
  "py_truediv_f64 a b = (if b = 0 then Inl ZeroDivisionError else Inr (f64_div a b))"

text \<open>
  The loop and the function once more, with every arithmetic result rounded as the
  interpreter rounds it. The clamp (\<^verbatim>\<open>min\<close>, \<^verbatim>\<open>max\<close>) selects one of its arguments and
  does not round. The regen profile is a supplied one: the synthesised profile goes
  through the platform's sine function, whose last bit IEEE 754 does not fix.
\<close>

fun sim_loop_f64 ::
  "real list \<Rightarrow> real list \<Rightarrow> real list \<Rightarrow> real \<Rightarrow> real \<Rightarrow> nat list \<Rightarrow>
   real \<times> real list \<times> real list \<Rightarrow> py_error + real \<times> real list \<times> real list" where
  "sim_loop_f64 regen solar consumption dt_sec battery_capacity_wh [] st = Inr st"
| "sim_loop_f64 regen solar consumption dt_sec battery_capacity_wh (i # rest)
     (soc_wh, soc_history_wh, net_power) =
     raise_or (py_getitem regen i) (\<lambda>regen_w.
     raise_or (py_getitem solar i) (\<lambda>solar_w.
     raise_or (py_getitem consumption i) (\<lambda>consumption_w.
       let energy_in_wh = f64_mul (f64_add regen_w solar_w) (f64_div dt_sec 3600);
           energy_out_wh = f64_mul consumption_w (f64_div dt_sec 3600);
           net_energy_change_wh = f64_sub energy_in_wh energy_out_wh;
           soc_wh1 = f64_add soc_wh net_energy_change_wh;
           soc_wh2 = min (max soc_wh1 0) battery_capacity_wh
       in sim_loop_f64 regen solar consumption dt_sec battery_capacity_wh rest
            (soc_wh2, soc_history_wh @ [soc_wh2],
             net_power @ [f64_sub (f64_add regen_w solar_w) consumption_w]))))"

definition simulate_battery_scenario_f64 ::
  "real \<Rightarrow> real \<Rightarrow> real \<Rightarrow> real \<Rightarrow> real list \<Rightarrow> real \<Rightarrow> real \<Rightarrow> py_error + sim_result" where
  "simulate_battery_scenario_f64 battery_capacity_kwh initial_soc_percent total_time_sec dt_sec
     regen solar_power_w consumption_power_w =
     (let battery_capacity_wh = f64_mul battery_capacity_kwh 1000;
          soc_wh = f64_mul (f64_div initial_soc_percent 100) battery_capacity_wh
      in raise_or (py_truediv_f64 total_time_sec dt_sec) (\<lambda>q.
         let steps = py_int q
         in raise_or (np_full steps solar_power_w) (\<lambda>solar.
            raise_or (np_full steps consumption_power_w) (\<lambda>consumption.
            raise_or (sim_loop_f64 regen solar consumption dt_sec battery_capacity_wh
                        [0..<nat steps] (soc_wh, [], [])) (\<lambda>(soc_end, soc_history_wh, net_power).
              Inr \<lparr> time_minutes = map (\<lambda>k. f64_div (f64_mul k dt_sec) 60) (np_arange steps),
                    soc_history_kwh = map (\<lambda>x. f64_div x 1000) soc_history_wh,
                    regen_power_profile = regen,
                    solar_power_profile = solar,
                    net_power_profile = net_power \<rparr>)))))"


section \<open>BLDC\_motor\_simulation.py\<close>

definition rotor_inertia :: real where "rotor_inertia = 0.004"
definition num_poles :: real where "num_poles = 12"
definition resistance :: real where "resistance = 0.08"
definition inductance :: real where "inductance = 0.0003"
definition emf_constant :: real where "emf_constant = 0.12"
definition load_torque :: real where "load_torque = 0.03"

definition back_emf :: "real \<Rightarrow> py_error + real list" where
  "back_emf speed =
     raise_or (np_linspace 0 1 3) (\<lambda>v.
     let theta = map (\<lambda>x. speed * x * num_poles) v
     in raise_or (np_elementwise (+) theta [0, - 2 * pi / 3, 2 * pi / 3]) (\<lambda>angles.
        Inr (map (\<lambda>a. emf_constant * sin a) angles)))"

definition bldc_gen_model :: "real \<Rightarrow> real list \<Rightarrow> py_error + real list" where
  "bldc_gen_model t y =
     raise_or (py_getitem y 0) (\<lambda>speed.
     let currents = drop 1 y
     in raise_or (back_emf speed) (\<lambda>emf.
        raise_or (np_dot currents emf) (\<lambda>torque.
        let d_speed_dt = (torque - load_torque) / rotor_inertia
        in raise_or (np_elementwise (-) emf (map (\<lambda>c. resistance * c) currents)) (\<lambda>d.
           let d_currents_dt = map (\<lambda>x. x / inductance) d
           in Inr ([d_speed_dt] @ d_currents_dt)))))"

definition rectify_dc :: "real list \<Rightarrow> real list \<Rightarrow> real list \<Rightarrow> py_error + real list" where
  "rectify_dc ia ib ic =
     raise_or (np_elementwise (+) (np_maximum0 ia) (np_maximum0 ib)) (\<lambda>ab.
     raise_or (np_elementwise (+) ab (np_maximum0 ic)) (\<lambda>abc.
       Inr (map (\<lambda>x. x / 3) abc)))"


text \<open>
  The specification's wording for the rectifier: clamp each phase current to be
  non-negative, then take the mean of the three.
\<close>

definition clamp_nonneg :: "real \<Rightarrow> real" where
  "clamp_nonneg x = (if x < 0 then 0 else x)"

definition mean3 :: "real \<Rightarrow> real \<Rightarrow> real \<Rightarrow> real" where
  "mean3 a b c = (a + b + c) / 3"

text \<open>
  The textbook three-phase model the specification contrasts the code with: one shared
  electrical angle \<open>speed * num_poles\<close>, shifted by the three phase offsets.
\<close>

definition shared_angle_emf :: "real \<Rightarrow> real list" where
  "shared_angle_emf speed =
     map (\<lambda>offset. emf_constant * sin (speed * num_poles + offset))
       [0, - 2 * pi / 3, 2 * pi / 3]"


section \<open>Properties of the battery simulation\<close>

lemma raise_or_Inr [simp]: "raise_or (Inr v) f = f v"
  by (simp add: raise_or_def)

lemma raise_or_Inl [simp]: "raise_or (Inl e) f = Inl e"
  by (simp add: raise_or_def)

lemma sim_loop_append:
  "sim_loop regen solar cons dt cap (xs @ ys) st =
     raise_or (sim_loop regen solar cons dt cap xs st) (sim_loop regen solar cons dt cap ys)"
proof (induction xs arbitrary: st)
  case Nil
  show ?case by simp
next
  case (Cons i xs)
  obtain s h p where st: "st = (s, h, p)" by (cases st)
  show ?case
    unfolding st using Cons.IH
    by (simp add: py_getitem_def Let_def)
qed

lemma clamp_code_spec: "0 \<le> cap \<Longrightarrow> min (max x 0) cap = clamp_spec x 0 cap"
  by (simp add: clamp_spec_def min_def max_def)

lemma sim_loop_upt:
  assumes "n \<le> length regen" "n \<le> m" "0 \<le> cap"
  shows "sim_loop regen (replicate m sw) (replicate m cw) dt cap [0..<n] (s0, [], []) =
     Inr (soc_spec regen sw cw dt cap s0 n,
          map (\<lambda>i. soc_spec regen sw cw dt cap s0 (Suc i)) [0..<n],
          map (\<lambda>i. regen ! i + sw - cw) [0..<n])"
  using assms(1,2)
proof (induction n)
  case 0
  show ?case by simp
next
  case (Suc n)
  then show ?case
    by (simp add: sim_loop_append py_getitem_def Let_def clamp_code_spec[OF assms(3)] add_diff_eq)
qed

lemma sim_loop_net:
  assumes "n \<le> length regen" "n \<le> m"
  shows "\<exists>s h. sim_loop regen (replicate m sw) (replicate m cw) dt cap [0..<n] (s0, [], []) =
     Inr (s, h, map (\<lambda>i. regen ! i + sw - cw) [0..<n]) \<and> length h = n"
  using assms
proof (induction n)
  case 0
  show ?case by simp
next
  case (Suc n)
  then obtain s h where
    "sim_loop regen (replicate m sw) (replicate m cw) dt cap [0..<n] (s0, [], []) =
       Inr (s, h, map (\<lambda>i. regen ! i + sw - cw) [0..<n])" "length h = n"
    by auto
  with Suc.prems show ?case
    by (simp add: sim_loop_append py_getitem_def Let_def)
qed

lemma sim_loop_indep:
  "map_sum id (\<lambda>st. snd (snd st)) (sim_loop regen solar cons dt cap xs (s, h, p)) =
   map_sum id (\<lambda>st. snd (snd st)) (sim_loop regen solar cons dt cap' xs (s', h', p))"
proof (induction xs arbitrary: s h s' h' p)
  case Nil
  show ?case by simp
next
  case (Cons i xs)
  show ?case
    using Cons.IH by (simp add: py_getitem_def Let_def)
qed

lemma simulate_runs:
  assumes dt: "dt \<noteq> 0"
    and steps: "0 \<le> py_int (tt / dt)"
    and N: "N = nat (py_int (tt / dt))"
    and src: "(case regen_arg of None \<Rightarrow> default_regen tt (py_int (tt / dt))
               | Some profile \<Rightarrow> Inr profile) = Inr R"
    and len: "N \<le> length R"
  shows "\<exists>h. length h = N \<and>
           simulate_battery_scenario cap init tt dt regen_arg sw cw =
             Inr \<lparr> time_minutes = map (\<lambda>i. real i * dt / 60) [0..<N],
                   soc_history_kwh = h,
                   regen_power_profile = R,
                   solar_power_profile = replicate N sw,
                   net_power_profile = map (\<lambda>i. R ! i + sw - cw) [0..<N] \<rparr>"
proof -
  from sim_loop_net [OF len order_refl, of sw cw dt "cap * 1000" "init / 100 * (cap * 1000)"]
  obtain s h where
    run: "sim_loop R (replicate N sw) (replicate N cw) dt (cap * 1000) [0..<N]
            (init / 100 * (cap * 1000), [], []) =
          Inr (s, h, map (\<lambda>i. R ! i + sw - cw) [0..<N])"
    and h: "length h = N"
    by blast
  have "simulate_battery_scenario cap init tt dt regen_arg sw cw =
          Inr \<lparr> time_minutes = map (\<lambda>i. real i * dt / 60) [0..<N],
                soc_history_kwh = map (\<lambda>x. x / 1000) h,
                regen_power_profile = R,
                solar_power_profile = replicate N sw,
                net_power_profile = map (\<lambda>i. R ! i + sw - cw) [0..<N] \<rparr>"
    using dt steps src run
    by (simp add: simulate_battery_scenario_def py_truediv_def np_full_def np_arange_def
        N [symmetric] Let_def o_def)
  with h show ?thesis by auto
qed

lemma simulate_exact:
  assumes dt: "dt \<noteq> 0"
    and steps: "0 \<le> py_int (tt / dt)"
    and N: "N = nat (py_int (tt / dt))"
    and src: "(case regen_arg of None \<Rightarrow> default_regen tt (py_int (tt / dt))
               | Some profile \<Rightarrow> Inr profile) = Inr R"
    and len: "N \<le> length R"
    and cap: "0 \<le> cap"
  shows "simulate_battery_scenario cap init tt dt regen_arg sw cw =
             Inr \<lparr> time_minutes = map (\<lambda>i. real i * dt / 60) [0..<N],
                   soc_history_kwh =
                     map (\<lambda>i. soc_spec R sw cw dt (cap * 1000) (init / 100 * (cap * 1000)) (Suc i) / 1000)
                       [0..<N],
                   regen_power_profile = R,
                   solar_power_profile = replicate N sw,
                   net_power_profile = map (\<lambda>i. R ! i + sw - cw) [0..<N] \<rparr>"
proof -
  have c: "0 \<le> cap * 1000" using cap by simp
  show ?thesis
    using dt steps src sim_loop_upt [OF len order_refl c, of sw cw dt "init / 100 * (cap * 1000)"]
    by (simp add: simulate_battery_scenario_def py_truediv_def np_full_def np_arange_def
        N [symmetric] Let_def o_def)
qed

lemma py_int_nonneg: "0 \<le> x \<Longrightarrow> py_int x = \<lfloor>x\<rfloor>"
  by (simp add: py_int_def)

lemma linspace_from_zero:
  "np_linspace 0 tt (int n) = Inr (map (\<lambda>i. real i * (tt / (real n - 1))) [0..<n])"
  by (cases "n = 1") (simp_all add: np_linspace_def)

lemma default_regen_explicit:
  assumes "0 \<le> steps"
  shows "default_regen tt steps =
     Inr (map (\<lambda>i. 75 * (1 + sin (2 * pi * (real i * (tt / (real (nat steps) - 1))) / 600)))
            [0..<nat steps])"
proof -
  from assms obtain n where n: "steps = int n"
    using zero_le_imp_eq_int by blast
  show ?thesis
    unfolding n
    by (simp only: default_regen_def linspace_from_zero raise_or_Inr map_map o_def nat_int)
qed

lemma regen_in_force:
  assumes "0 \<le> steps"
    and "case regen_arg of None \<Rightarrow> True | Some profile \<Rightarrow> nat steps \<le> length profile"
  shows "\<exists>R. (case regen_arg of None \<Rightarrow> default_regen tt steps | Some profile \<Rightarrow> Inr profile) = Inr R
           \<and> nat steps \<le> length R
           \<and> (case regen_arg of
                 Some profile \<Rightarrow> R = profile
               | None \<Rightarrow> R = map (\<lambda>i. 75 * (1 + sin (2 * pi *
                                  (real i * (tt / (real (nat steps) - 1))) / 600)))
                              [0..<nat steps])"
proof (cases regen_arg)
  case None
  with default_regen_explicit [OF assms(1), of tt] show ?thesis by simp
next
  case (Some profile)
  with assms(2) show ?thesis by simp
qed

subsection \<open>The update rule of the loop\<close>

text \<open>
  Claim C2. For every valid configuration (capacity positive, initial state of charge
  between 0 and 100 percent, positive time step, duration a positive whole number \<open>N\<close> of
  steps, and either no regen profile or one with at least \<open>N\<close> entries) the simulation
  returns. The regen profile in force is the supplied one, or else the synthesised one,
  whose \<open>i\<close>-th entry is \<open>75 * (1 + sin (2 * pi * t / 600))\<close> at
  \<open>t = i * total_time_sec / (N - 1)\<close>; the solar profile is \<open>N\<close> copies of
  \<open>solar_power_w\<close>. The simulation starts from
  \<open>initial_soc_percent / 100 * battery_capacity_kwh * 1000\<close> Wh and records
  \<open>N = \<lfloor>total_time_sec / dt_sec\<rfloor>\<close> values; the \<open>i\<close>-th recorded value (kWh) is the
  specification's clamp, to the range from 0 to the capacity in Wh, of the previous
  clamped value plus \<open>(regen[i] + solar_power_w) * dt_sec / 3600\<close> minus
  \<open>consumption_power_w * dt_sec / 3600\<close>, divided by 1000.
\<close>

theorem soc_update_rule:
  assumes cap: "0 < battery_capacity_kwh"
    and init: "0 \<le> initial_soc_percent" "initial_soc_percent \<le> 100"
    and dt: "0 < dt_sec"
    and steps: "0 < total_time_sec / dt_sec"
      "of_int \<lfloor>total_time_sec / dt_sec\<rfloor> = total_time_sec / dt_sec"
    and N: "N = nat \<lfloor>total_time_sec / dt_sec\<rfloor>"
    and regen: "case regen_arg of None \<Rightarrow> True | Some profile \<Rightarrow> N \<le> length profile"
  shows "\<exists>r. simulate_battery_scenario battery_capacity_kwh initial_soc_percent total_time_sec
                dt_sec regen_arg solar_power_w consumption_power_w = Inr r
             \<and> (case regen_arg of
                   Some profile \<Rightarrow> regen_power_profile r = profile
                 | None \<Rightarrow> regen_power_profile r =
                     map (\<lambda>i. 75 * (1 + sin (2 * pi *
                            (real i * (total_time_sec / (real N - 1))) / 600))) [0..<N])
             \<and> solar_power_profile r = replicate N solar_power_w
             \<and> length (soc_history_kwh r) = N
             \<and> (\<forall>i<N. soc_history_kwh r ! i =
                   clamp_spec
                     ((if i = 0 then (initial_soc_percent / 100) * battery_capacity_kwh * 1000
                       else soc_history_kwh r ! (i - 1) * 1000)
                      + (regen_power_profile r ! i + solar_power_w) * (dt_sec / 3600)
                      - consumption_power_w * (dt_sec / 3600))
                     0 (battery_capacity_kwh * 1000) / 1000)"
proof -
  have q: "0 \<le> total_time_sec / dt_sec" using steps(1) by simp
  have pi: "py_int (total_time_sec / dt_sec) = \<lfloor>total_time_sec / dt_sec\<rfloor>"
    by (rule py_int_nonneg [OF q])
  have s0: "0 \<le> py_int (total_time_sec / dt_sec)" using q by (simp add: pi)
  have N': "N = nat (py_int (total_time_sec / dt_sec))" using N by (simp add: pi)
  from regen_in_force [OF s0, of regen_arg total_time_sec] regen N'
  obtain R where
    R: "(case regen_arg of None \<Rightarrow> default_regen total_time_sec (py_int (total_time_sec / dt_sec))
         | Some profile \<Rightarrow> Inr profile) = Inr R"
    and len: "N \<le> length R"
    and tie: "case regen_arg of
                Some profile \<Rightarrow> R = profile
              | None \<Rightarrow> R = map (\<lambda>i. 75 * (1 + sin (2 * pi *
                              (real i * (total_time_sec / (real N - 1))) / 600))) [0..<N]"
    by auto
  have dt0: "dt_sec \<noteq> 0" using dt by simp
  have c: "0 \<le> battery_capacity_kwh" using cap by simp
  note run = simulate_exact [OF dt0 s0 N' R len c, of initial_soc_percent solar_power_w
      consumption_power_w]
  define soc where "soc = soc_spec R solar_power_w consumption_power_w dt_sec
      (battery_capacity_kwh * 1000) (initial_soc_percent / 100 * (battery_capacity_kwh * 1000))"
  define r where "r = \<lparr> time_minutes = map (\<lambda>i. real i * dt_sec / 60) [0..<N],
      soc_history_kwh = map (\<lambda>i. soc (Suc i) / 1000) [0..<N],
      regen_power_profile = R, solar_power_profile = replicate N solar_power_w,
      net_power_profile = map (\<lambda>i. R ! i + solar_power_w - consumption_power_w) [0..<N] \<rparr>"
  have ret: "simulate_battery_scenario battery_capacity_kwh initial_soc_percent total_time_sec
      dt_sec regen_arg solar_power_w consumption_power_w = Inr r"
    unfolding run r_def soc_def by simp
  have hist: "soc_history_kwh r = map (\<lambda>i. soc (Suc i) / 1000) [0..<N]"
    and reg: "regen_power_profile r = R"
    and sol: "solar_power_profile r = replicate N solar_power_w"
    by (simp_all add: r_def)
  have step: "soc_history_kwh r ! i =
        clamp_spec
          ((if i = 0 then (initial_soc_percent / 100) * battery_capacity_kwh * 1000
            else soc_history_kwh r ! (i - 1) * 1000)
           + (regen_power_profile r ! i + solar_power_w) * (dt_sec / 3600)
           - consumption_power_w * (dt_sec / 3600))
          0 (battery_capacity_kwh * 1000) / 1000" if i: "i < N" for i
  proof (cases i)
    case 0
    with i show ?thesis by (simp add: hist reg soc_def)
  next
    case (Suc j)
    with i show ?thesis by (simp add: hist reg soc_def)
  qed
  have tie': "case regen_arg of
                Some profile \<Rightarrow> regen_power_profile r = profile
              | None \<Rightarrow> regen_power_profile r =
                  map (\<lambda>i. 75 * (1 + sin (2 * pi *
                         (real i * (total_time_sec / (real N - 1))) / 600))) [0..<N]"
    using tie unfolding reg .
  have len: "length (soc_history_kwh r) = N" by (simp add: hist)
  show ?thesis
    apply (rule exI [of _ r])
    apply (intro conjI allI impI)
        apply (rule ret)
       apply (rule tie')
      apply (rule sol)
     apply (rule len)
    apply (erule step)
    done
qed

text \<open>A three-step run at half charge with a two-second step and a longer profile.\<close>

theorem soc_update_rule_witness:
  "(0::real) < 8 \<and> (0::real) \<le> 50 \<and> (50::real) \<le> 100 \<and> (0::real) < 2
   \<and> (0::real) < 6 / 2 \<and> of_int \<lfloor>(6::real) / 2\<rfloor> = (6::real) / 2
   \<and> (3::nat) = nat \<lfloor>(6::real) / 2\<rfloor>
   \<and> (3::nat) \<le> length [100::real, 0, 90000000, 7]
   \<and> (\<exists>r. simulate_battery_scenario 8 50 6 2 (Some [100, 0, 90000000, 7]) 50 500 = Inr r
          \<and> regen_power_profile r = [100, 0, 90000000, 7]
          \<and> solar_power_profile r = replicate 3 50
          \<and> length (soc_history_kwh r) = 3
          \<and> (\<forall>i<3. soc_history_kwh r ! i =
                clamp_spec
                  ((if i = 0 then (50 / 100) * 8 * 1000
                    else soc_history_kwh r ! (i - 1) * 1000)
                   + (regen_power_profile r ! i + 50) * (2 / 3600)
                   - 500 * (2 / 3600))
                  0 (8 * 1000) / 1000))"
proof -
  have h: "(0::real) < 8" "(0::real) \<le> 50" "(50::real) \<le> 100" "(0::real) < 2"
    "(0::real) < 6 / 2" "of_int \<lfloor>(6::real) / 2\<rfloor> = (6::real) / 2"
    "(3::nat) = nat \<lfloor>(6::real) / 2\<rfloor>"
    by simp_all
  have p: "case Some [100::real, 0, 90000000, 7] of None \<Rightarrow> True
           | Some profile \<Rightarrow> (3::nat) \<le> length profile"
    by simp
  have l: "(3::nat) \<le> length [100::real, 0, 90000000, 7]" by simp
  have ex: "\<exists>r. simulate_battery_scenario 8 50 6 2 (Some [100, 0, 90000000, 7]) 50 500 = Inr r
          \<and> regen_power_profile r = [100, 0, 90000000, 7]
          \<and> solar_power_profile r = replicate 3 50
          \<and> length (soc_history_kwh r) = 3
          \<and> (\<forall>i<3. soc_history_kwh r ! i =
                clamp_spec
                  ((if i = 0 then (50 / 100) * 8 * 1000
                    else soc_history_kwh r ! (i - 1) * 1000)
                   + (regen_power_profile r ! i + 50) * (2 / 3600)
                   - 500 * (2 / 3600))
                  0 (8 * 1000) / 1000)"
    using soc_update_rule [OF h p, of 50 500] unfolding option.case .
  show ?thesis
    by (intro conjI) (rule h l ex)+
qed

subsection \<open>Net power ignores the clamp\<close>

text \<open>
  Claim C7. For every valid configuration the simulation returns, with the regen profile
  in force (the supplied one, or else the synthesised one) and the solar profile of \<open>N\<close>
  copies of \<open>solar_power_w\<close>; and for every step \<open>i\<close> the recorded net power is
  \<open>regen[i] + solar_power_w - consumption_power_w\<close>, whatever the state of charge did.
\<close>

theorem net_power_unclamped:
  assumes cap: "0 < battery_capacity_kwh"
    and init: "0 \<le> initial_soc_percent" "initial_soc_percent \<le> 100"
    and dt: "0 < dt_sec"
    and steps: "0 < total_time_sec / dt_sec"
      "of_int \<lfloor>total_time_sec / dt_sec\<rfloor> = total_time_sec / dt_sec"
    and N: "N = nat \<lfloor>total_time_sec / dt_sec\<rfloor>"
    and regen: "case regen_arg of None \<Rightarrow> True | Some profile \<Rightarrow> N \<le> length profile"
  shows "\<exists>r. simulate_battery_scenario battery_capacity_kwh initial_soc_percent total_time_sec
                dt_sec regen_arg solar_power_w consumption_power_w = Inr r
             \<and> (case regen_arg of
                   Some profile \<Rightarrow> regen_power_profile r = profile
                 | None \<Rightarrow> regen_power_profile r =
                     map (\<lambda>i. 75 * (1 + sin (2 * pi *
                            (real i * (total_time_sec / (real N - 1))) / 600))) [0..<N])
             \<and> solar_power_profile r = replicate N solar_power_w
             \<and> net_power_profile r =
                 map (\<lambda>i. regen_power_profile r ! i + solar_power_w - consumption_power_w)
                   [0..<N]"
proof -
  have q: "0 \<le> total_time_sec / dt_sec" using steps(1) by simp
  have pi: "py_int (total_time_sec / dt_sec) = \<lfloor>total_time_sec / dt_sec\<rfloor>"
    by (rule py_int_nonneg [OF q])
  have s0: "0 \<le> py_int (total_time_sec / dt_sec)" using q by (simp add: pi)
  have N': "N = nat (py_int (total_time_sec / dt_sec))" using N by (simp add: pi)
  from regen_in_force [OF s0, of regen_arg total_time_sec] regen N'
  obtain R where
    R: "(case regen_arg of None \<Rightarrow> default_regen total_time_sec (py_int (total_time_sec / dt_sec))
         | Some profile \<Rightarrow> Inr profile) = Inr R"
    and len: "N \<le> length R"
    and tie: "case regen_arg of
                Some profile \<Rightarrow> R = profile
              | None \<Rightarrow> R = map (\<lambda>i. 75 * (1 + sin (2 * pi *
                              (real i * (total_time_sec / (real N - 1))) / 600))) [0..<N]"
    by auto
  have dt0: "dt_sec \<noteq> 0" using dt by simp
  from simulate_runs [OF dt0 s0 N' R len, of battery_capacity_kwh initial_soc_percent
      solar_power_w consumption_power_w]
  obtain h where
    run: "simulate_battery_scenario battery_capacity_kwh initial_soc_percent total_time_sec
            dt_sec regen_arg solar_power_w consumption_power_w =
          Inr \<lparr> time_minutes = map (\<lambda>i. real i * dt_sec / 60) [0..<N],
                soc_history_kwh = h, regen_power_profile = R,
                solar_power_profile = replicate N solar_power_w,
                net_power_profile = map (\<lambda>i. R ! i + solar_power_w - consumption_power_w) [0..<N] \<rparr>"
    by blast
  define r where "r = \<lparr> time_minutes = map (\<lambda>i. real i * dt_sec / 60) [0..<N],
                soc_history_kwh = h, regen_power_profile = R,
                solar_power_profile = replicate N solar_power_w,
                net_power_profile = map (\<lambda>i. R ! i + solar_power_w - consumption_power_w) [0..<N] \<rparr>"
  have ret: "simulate_battery_scenario battery_capacity_kwh initial_soc_percent total_time_sec
            dt_sec regen_arg solar_power_w consumption_power_w = Inr r"
    unfolding run r_def ..
  have reg: "regen_power_profile r = R"
    and sol: "solar_power_profile r = replicate N solar_power_w"
    and net: "net_power_profile r =
        map (\<lambda>i. regen_power_profile r ! i + solar_power_w - consumption_power_w) [0..<N]"
    by (simp_all add: r_def)
  have tie': "case regen_arg of
                Some profile \<Rightarrow> regen_power_profile r = profile
              | None \<Rightarrow> regen_power_profile r =
                  map (\<lambda>i. 75 * (1 + sin (2 * pi *
                         (real i * (total_time_sec / (real N - 1))) / 600))) [0..<N]"
    using tie unfolding reg .
  show ?thesis
    apply (rule exI [of _ r])
    apply (intro conjI)
       apply (rule ret)
      apply (rule tie')
     apply (rule sol)
    apply (rule net)
    done
qed

text \<open>
  A run whose first step hits the upper clamp (7.2 MW of braking power into a full
  battery): the net power is still reported unclamped.
\<close>

theorem net_power_unclamped_witness:
  "(0::real) < 8 \<and> (0::real) \<le> 100 \<and> (100::real) \<le> 100 \<and> (0::real) < 1
   \<and> (0::real) < 3 / 1 \<and> of_int \<lfloor>(3::real) / 1\<rfloor> = (3::real) / 1
   \<and> (3::nat) = nat \<lfloor>(3::real) / 1\<rfloor>
   \<and> (3::nat) \<le> length [7200000::real, 0, 3]
   \<and> (\<exists>r. simulate_battery_scenario 8 100 3 1 (Some [7200000, 0, 3]) 50 500 = Inr r
          \<and> regen_power_profile r = [7200000, 0, 3]
          \<and> solar_power_profile r = replicate 3 50
          \<and> net_power_profile r = map (\<lambda>i. regen_power_profile r ! i + 50 - 500) [0..<3])"
proof -
  have h: "(0::real) < 8" "(0::real) \<le> 100" "(100::real) \<le> 100" "(0::real) < 1"
    "(0::real) < 3 / 1" "of_int \<lfloor>(3::real) / 1\<rfloor> = (3::real) / 1"
    "(3::nat) = nat \<lfloor>(3::real) / 1\<rfloor>"
    by simp_all
  have p: "case Some [7200000::real, 0, 3] of None \<Rightarrow> True
           | Some profile \<Rightarrow> (3::nat) \<le> length profile"
    by simp
  have l: "(3::nat) \<le> length [7200000::real, 0, 3]" by simp
  have ex: "\<exists>r. simulate_battery_scenario 8 100 3 1 (Some [7200000, 0, 3]) 50 500 = Inr r
          \<and> regen_power_profile r = [7200000, 0, 3]
          \<and> solar_power_profile r = replicate 3 50
          \<and> net_power_profile r = map (\<lambda>i. regen_power_profile r ! i + 50 - 500) [0..<3]"
    using net_power_unclamped [OF h p, of 50 500] unfolding option.case .
  show ?thesis
    by (intro conjI) (rule h l ex)+
qed

subsection \<open>Shapes of the outputs\<close>

text \<open>
  Claim C9 as stated asks only for a positive time step and a supplied profile with at
  least \<open>N = int(total_time_sec / dt_sec)\<close> entries. A negative duration of five steps
  satisfies both (any profile has at least \<open>-5\<close> entries), and there the function does
  not return: \<^verbatim>\<open>np.full\<close> refuses the negative length.
\<close>

theorem output_shapes_counterexample:
  "(0::real) < 1 \<and> py_int (- 5 / 1) \<le> int (length ([] :: real list))
   \<and> simulate_battery_scenario 8 100 (- 5) 1 (Some []) 50 500 = Inl ValueError"
  by (simp add: simulate_battery_scenario_def py_truediv_def py_int_def np_full_def)

text \<open>
  Claim C9, amended: for every configuration with a positive time step, a step count
  \<open>N = int(total_time_sec / dt_sec)\<close> that is not negative, and either no regen profile
  or a supplied one of at least \<open>N\<close> entries, the simulation returns; the time axis, the
  state-of-charge history, the solar profile and the net power profile have exactly \<open>N\<close>
  elements; the \<open>i\<close>-th time is \<open>i * dt_sec / 60\<close>; a supplied profile is returned
  unchanged, also when it is longer than \<open>N\<close>, and a synthesised one has \<open>N\<close> elements.
\<close>

theorem output_shapes:
  assumes dt: "0 < dt_sec"
    and steps: "0 \<le> py_int (total_time_sec / dt_sec)"
    and N: "N = nat (py_int (total_time_sec / dt_sec))"
    and regen: "case regen_arg of None \<Rightarrow> True | Some profile \<Rightarrow> N \<le> length profile"
  shows "\<exists>r. simulate_battery_scenario battery_capacity_kwh initial_soc_percent total_time_sec
                dt_sec regen_arg solar_power_w consumption_power_w = Inr r
             \<and> length (time_minutes r) = N \<and> length (soc_history_kwh r) = N
             \<and> length (solar_power_profile r) = N \<and> length (net_power_profile r) = N
             \<and> time_minutes r = map (\<lambda>i. real i * dt_sec / 60) [0..<N]
             \<and> (case regen_arg of
                   Some profile \<Rightarrow> regen_power_profile r = profile
                 | None \<Rightarrow> length (regen_power_profile r) = N)"
proof -
  have dt0: "dt_sec \<noteq> 0" using dt by simp
  from regen_in_force [OF steps, of regen_arg total_time_sec] regen N
  obtain R where
    R: "(case regen_arg of None \<Rightarrow> default_regen total_time_sec (py_int (total_time_sec / dt_sec))
         | Some profile \<Rightarrow> Inr profile) = Inr R"
    and len: "N \<le> length R"
    and tie: "case regen_arg of
                Some profile \<Rightarrow> R = profile
              | None \<Rightarrow> R = map (\<lambda>i. 75 * (1 + sin (2 * pi *
                              (real i * (total_time_sec / (real N - 1))) / 600))) [0..<N]"
    by auto
  from simulate_runs [OF dt0 steps N R len, of battery_capacity_kwh initial_soc_percent
      solar_power_w consumption_power_w]
  obtain h where h: "length h = N"
    and run: "simulate_battery_scenario battery_capacity_kwh initial_soc_percent total_time_sec
            dt_sec regen_arg solar_power_w consumption_power_w =
          Inr \<lparr> time_minutes = map (\<lambda>i. real i * dt_sec / 60) [0..<N],
                soc_history_kwh = h, regen_power_profile = R,
                solar_power_profile = replicate N solar_power_w,
                net_power_profile =
                  map (\<lambda>i. R ! i + solar_power_w - consumption_power_w) [0..<N] \<rparr>"
    by blast
  have tie': "case regen_arg of Some profile \<Rightarrow> R = profile | None \<Rightarrow> length R = N"
    using tie by (cases regen_arg) simp_all
  show ?thesis
    unfolding run using h tie' by (cases regen_arg) simp_all
qed

text \<open>
  Five seconds in steps of two: truncation gives two steps; the three-entry profile
  comes back whole, and the default call returns a profile of two entries.
\<close>

theorem output_shapes_witness:
  "(0::real) < 2 \<and> 0 \<le> py_int (5 / 2) \<and> (2::nat) = nat (py_int (5 / 2))
   \<and> (2::nat) \<le> length [10::real, 20, 30]
   \<and> (\<exists>r. simulate_battery_scenario 8 100 5 2 (Some [10, 20, 30]) 50 500 = Inr r
          \<and> length (time_minutes r) = 2 \<and> length (soc_history_kwh r) = 2
          \<and> length (solar_power_profile r) = 2 \<and> length (net_power_profile r) = 2
          \<and> time_minutes r = map (\<lambda>i. real i * 2 / 60) [0..<2]
          \<and> regen_power_profile r = [10, 20, 30])
   \<and> (\<exists>r. simulate_battery_scenario 8 100 5 2 None 50 500 = Inr r
          \<and> length (time_minutes r) = 2 \<and> length (soc_history_kwh r) = 2
          \<and> length (solar_power_profile r) = 2 \<and> length (net_power_profile r) = 2
          \<and> time_minutes r = map (\<lambda>i. real i * 2 / 60) [0..<2]
          \<and> length (regen_power_profile r) = 2)"
proof -
  have h: "(0::real) < 2" "0 \<le> py_int (5 / 2)" "(2::nat) = nat (py_int (5 / 2))"
    by (simp_all add: py_int_def)
  have p: "case Some [10::real, 20, 30] of None \<Rightarrow> True
           | Some profile \<Rightarrow> (2::nat) \<le> length profile"
    by simp
  have n: "case (None :: real list option) of None \<Rightarrow> True
           | Some profile \<Rightarrow> (2::nat) \<le> length profile"
    by simp
  have l: "(2::nat) \<le> length [10::real, 20, 30]" by simp
  have ex1: "\<exists>r. simulate_battery_scenario 8 100 5 2 (Some [10, 20, 30]) 50 500 = Inr r
          \<and> length (time_minutes r) = 2 \<and> length (soc_history_kwh r) = 2
          \<and> length (solar_power_profile r) = 2 \<and> length (net_power_profile r) = 2
          \<and> time_minutes r = map (\<lambda>i. real i * 2 / 60) [0..<2]
          \<and> regen_power_profile r = [10, 20, 30]"
    using output_shapes [OF h p, of 8 100 50 500] unfolding option.case .
  have ex2: "\<exists>r. simulate_battery_scenario 8 100 5 2 None 50 500 = Inr r
          \<and> length (time_minutes r) = 2 \<and> length (soc_history_kwh r) = 2
          \<and> length (solar_power_profile r) = 2 \<and> length (net_power_profile r) = 2
          \<and> time_minutes r = map (\<lambda>i. real i * 2 / 60) [0..<2]
          \<and> length (regen_power_profile r) = 2"
    using output_shapes [OF h n, of 8 100 50 500] unfolding option.case .
  show ?thesis
    by (intro conjI) (rule h l ex1 ex2)+
qed

subsection \<open>Power outputs do not depend on the battery\<close>

text \<open>
  Claim C10. Two runs that differ only in battery capacity and initial state of charge
  return the same time axis, regen profile, solar profile and net power profile. The
  statement compares the complete outcomes, so it also says that one run raises exactly
  when the other does, with the same exception.
\<close>

theorem power_outputs_independent_of_battery:
  "map_sum id power_outputs
     (simulate_battery_scenario battery_capacity_kwh initial_soc_percent total_time_sec dt_sec
        regen_arg solar_power_w consumption_power_w) =
   map_sum id power_outputs
     (simulate_battery_scenario battery_capacity_kwh' initial_soc_percent' total_time_sec dt_sec
        regen_arg solar_power_w consumption_power_w)"
proof -
  let ?loop = "\<lambda>cap soc0 regen solar cons.
      sim_loop regen solar cons dt_sec cap
        [0..<nat (py_int (total_time_sec / dt_sec))] (soc0, [], [])"
  have loop: "map_sum id (\<lambda>st. snd (snd st)) (?loop c s regen solar cons) =
        map_sum id (\<lambda>st. snd (snd st)) (?loop c' s' regen solar cons)"
    for c c' s s' regen solar cons
    by (rule sim_loop_indep)
  let ?steps = "py_int (total_time_sec / dt_sec)"
  let ?src = "case regen_arg of None \<Rightarrow> default_regen total_time_sec ?steps
              | Some profile \<Rightarrow> Inr profile"
  show ?thesis
  proof (cases "dt_sec = 0")
    case True
    then show ?thesis
      by (simp add: simulate_battery_scenario_def py_truediv_def)
  next
    case dt: False
    show ?thesis
    proof (cases ?src)
      case (Inl e)
      with dt show ?thesis
        by (simp add: simulate_battery_scenario_def py_truediv_def Let_def)
    next
      case (Inr regen)
      show ?thesis
      proof (cases "?steps < 0")
        case True
        with dt Inr show ?thesis
          by (simp add: simulate_battery_scenario_def py_truediv_def Let_def np_full_def)
      next
        case False
        let ?solar = "replicate (nat ?steps) solar_power_w"
        let ?cons = "replicate (nat ?steps) consumption_power_w"
        let ?a = "?loop (battery_capacity_kwh * 1000)
            (initial_soc_percent / 100 * (battery_capacity_kwh * 1000)) regen ?solar ?cons"
        let ?b = "?loop (battery_capacity_kwh' * 1000)
            (initial_soc_percent' / 100 * (battery_capacity_kwh' * 1000)) regen ?solar ?cons"
        have ab: "map_sum id (\<lambda>st. snd (snd st)) ?a = map_sum id (\<lambda>st. snd (snd st)) ?b"
          by (rule loop)
        have "map_sum id power_outputs (raise_or ?a (\<lambda>(soc_end, soc_history_wh, net_power).
                Inr \<lparr> time_minutes = map (\<lambda>k. k * dt_sec / 60) (np_arange ?steps),
                      soc_history_kwh = map (\<lambda>x. x / 1000) soc_history_wh,
                      regen_power_profile = regen, solar_power_profile = ?solar,
                      net_power_profile = net_power \<rparr>)) =
              map_sum id power_outputs (raise_or ?b (\<lambda>(soc_end, soc_history_wh, net_power).
                Inr \<lparr> time_minutes = map (\<lambda>k. k * dt_sec / 60) (np_arange ?steps),
                      soc_history_kwh = map (\<lambda>x. x / 1000) soc_history_wh,
                      regen_power_profile = regen, solar_power_profile = ?solar,
                      net_power_profile = net_power \<rparr>))"
          using ab by (cases ?a; cases ?b) (auto simp: power_outputs_def)
        with dt Inr False show ?thesis
          by (simp add: simulate_battery_scenario_def py_truediv_def Let_def np_full_def)
      qed
    qed
  qed
qed

subsection \<open>The one-hour discharge scenario\<close>

lemma soc_spec_discharge:
  assumes "k \<le> 3600"
  shows "soc_spec (replicate 3600 0) 75 450 1 8000 8000 k = 8000 - 375 * real k / 3600"
  using assms
proof (induction k)
  case 0
  show ?case by simp
next
  case (Suc k)
  then have k: "k < 3600" by simp
  then have b: "real k < 3600" by simp
  have IH: "soc_spec (replicate 3600 0) 75 450 1 8000 8000 k = 8000 - 375 * real k / 3600"
    using Suc by simp
  show ?case
    using k b by (simp add: IH clamp_spec_def field_simps)
qed

text \<open>
  Claim C6. With capacity 8 kWh, full initial charge, 75 W solar, 450 W consumption, a
  regen profile of 3600 zeros, and 3600 steps of one second, the simulation records a
  net power of -375 W at each of the 3600 steps; the recorded state of charge after step
  \<open>i\<close> is the unclamped value \<open>8000 - 375 * (i + 1) / 3600\<close> Wh, so the clamp never
  acts; and the last recorded value is 7.625 kWh.
\<close>

theorem concrete_discharge_scenario:
  "\<exists>r. simulate_battery_scenario 8 100 3600 1 (Some (replicate 3600 0)) 75 450 = Inr r
      \<and> net_power_profile r = replicate 3600 (- 375)
      \<and> soc_history_kwh r = map (\<lambda>i. (8000 - 375 * (real i + 1) / 3600) / 1000) [0..<3600]
      \<and> last (soc_history_kwh r) = 7.625"
proof -
  have dt0: "(1::real) \<noteq> 0" by simp
  have s0: "0 \<le> py_int (3600 / 1)" by (simp add: py_int_def)
  have N: "3600 = nat (py_int (3600 / 1))" by (simp add: py_int_def)
  have src: "(case Some (replicate 3600 (0::real)) of
                None \<Rightarrow> default_regen 3600 (py_int (3600 / 1))
              | Some p \<Rightarrow> Inr p) = Inr (replicate 3600 0)"
    by simp
  have len: "3600 \<le> length (replicate 3600 (0::real))" by simp
  have cap: "(0::real) \<le> 8" by simp
  note run = simulate_exact [OF dt0 s0 N src len cap, of 100 75 450]
  have net: "map (\<lambda>i. replicate 3600 (0::real) ! i + 75 - 450) [0..<3600] = replicate 3600 (- 375)"
    by (rule nth_equalityI) simp_all
  have hist: "map (\<lambda>i. soc_spec (replicate 3600 0) 75 450 1 (8 * 1000) (100 / 100 * (8 * 1000)) (Suc i) / 1000) [0..<3600]
      = map (\<lambda>i. (8000 - 375 * (real i + 1) / 3600) / 1000) [0..<3600]"
  proof (rule map_cong [OF refl])
    fix i assume "i \<in> set [0..<3600]"
    then have "Suc i \<le> 3600" by simp
    from soc_spec_discharge [OF this]
    show "soc_spec (replicate 3600 0) 75 450 1 (8 * 1000) (100 / 100 * (8 * 1000)) (Suc i) / 1000
          = (8000 - 375 * (real i + 1) / 3600) / 1000"
      by (simp add: add.commute)
  qed
  have lst: "last (map (\<lambda>i. (8000 - 375 * (real i + 1) / 3600) / 1000) [0..<3600]) = (7.625 :: real)"
    by (simp add: last_map)
  define r where "r = \<lparr> time_minutes = map (\<lambda>i. real i * 1 / 60) [0..<3600],
      soc_history_kwh = map (\<lambda>i. (8000 - 375 * (real i + 1) / 3600) / 1000) [0..<3600],
      regen_power_profile = replicate 3600 0, solar_power_profile = replicate 3600 75,
      net_power_profile = replicate 3600 (- 375) \<rparr>"
  have ret: "simulate_battery_scenario 8 100 3600 1 (Some (replicate 3600 0)) 75 450 = Inr r"
    unfolding run net hist r_def ..
  have f1: "net_power_profile r = replicate 3600 (- 375)"
    and f2: "soc_history_kwh r = map (\<lambda>i. (8000 - 375 * (real i + 1) / 3600) / 1000) [0..<3600]"
    by (simp_all only: r_def sim_result.simps)
  have f3: "last (soc_history_kwh r) = 7.625"
    unfolding f2 by (rule lst)
  from ret f1 f2 f3 show ?thesis by blast
qed

subsection \<open>The synthesised regen profile\<close>

lemma sin_cubic_lower:
  fixes x :: real
  assumes "0 < x"
  shows "x - x ^ 3 / 6 \<le> sin x"
proof -
  from Maclaurin_sin_expansion3 [of 3 x] assms
  obtain t where
    t: "sin x = (\<Sum>m<3. sin_coeff m * x ^ m) + (sin (t + 1 / 2 * real 3 * pi) / fact 3) * x ^ 3"
    by auto
  have s: "(\<Sum>m<3. sin_coeff m * x ^ m) = x"
    by (simp add: sin_coeff_def numeral_3_eq_3)
  have f: "fact 3 = (6::real)"
    by (simp add: numeral_3_eq_3)
  have "- 1 \<le> sin (t + 1 / 2 * real 3 * pi)" by (rule sin_ge_minus_one)
  moreover have "0 \<le> x ^ 3 / 6" using assms by simp
  ultimately have "- (x ^ 3 / 6) \<le> sin (t + 1 / 2 * real 3 * pi) * (x ^ 3 / 6)"
    by (metis mult_minus1 mult_right_mono)
  then show ?thesis
    unfolding t s f by (simp add: field_simps)
qed

lemma sin_small_angle: "1 / 300 \<le> sin (pi / 599)"
proof -
  let ?x = "pi / 599"
  have lo: "2 / 599 \<le> ?x" using pi_ge_two by simp
  have hi: "?x \<le> 4 / 599" using pi_less_4 by simp
  have pos: "0 < ?x" by simp
  have "?x ^ 3 \<le> (4 / 599) ^ 3"
    by (rule power_mono [OF hi]) simp
  then have c: "?x ^ 3 / 6 \<le> (4 / 599) ^ 3 / 6" by simp
  have "2 / 599 - (4 / 599) ^ 3 / 6 \<le> ?x - ?x ^ 3 / 6"
    using lo c by linarith
  also have "\<dots> \<le> sin ?x" by (rule sin_cubic_lower [OF pos])
  finally have "2 / 599 - (4 / 599) ^ 3 / 6 \<le> sin ?x" .
  moreover have "(1::real) / 300 \<le> 2 / 599 - (4 / 599) ^ 3 / 6" by (simp add: power3_eq_cube)
  ultimately show ?thesis by linarith
qed

lemma linspace_600: "np_linspace 0 600 600 = Inr (map (\<lambda>i. real i * (600 / 599)) [0..<600])"
  by (simp add: np_linspace_def)

lemma sin_after_half: "sin (2 * pi * (real 300 * (600 / 599)) / 600) = - sin (pi / 599)"
proof -
  have "2 * pi * (real 300 * (600 / 599)) / 600 = pi / 599 + pi"
    by (simp add: field_simps)
  then show ?thesis by (simp only: sin_periodic_pi)
qed

lemma sin_before_half: "sin (2 * pi * (real 299 * (600 / 599)) / 600) = sin (pi / 599)"
proof -
  have "2 * pi * (real 299 * (600 / 599)) / 600 = pi - pi / 599"
    by (simp add: field_simps)
  then show ?thesis by (simp only: sin_pi_minus)
qed

lemma default_regen_600:
  "default_regen 600 600 =
     Inr (map (\<lambda>i. 75 * (1 + sin (2 * pi * (real i * (600 / 599)) / 600))) [0..<600])"
  by (simp add: default_regen_def linspace_600 o_def)

text \<open>
  Claim C3 says that the synthesised profile samples \<open>75 * (1 + sin (2 * pi * t / 600))\<close>
  at \<open>N\<close> times of the half-open interval from 0 to the duration, so that with a duration
  of 600 s and a step of 1 s the sample for \<open>t = 300\<close> s is 75 W. The code takes its
  sample times from \<^verbatim>\<open>np.linspace(0, total_time_sec, steps)\<close>, which includes the end
  point: the \<open>i\<close>-th sample time is \<open>i * 600 / 599\<close>, not \<open>i\<close>. The run below returns that
  profile; the entry at index 300, which the returned time axis places at 300 s, is at
  most 74.75 W, and its neighbour at index 299 is at least 75.25 W.
\<close>

theorem default_regen_sample_times:
  "\<exists>r. simulate_battery_scenario 8 100 600 1 None 50 500 = Inr r
      \<and> regen_power_profile r =
          map (\<lambda>i. 75 * (1 + sin (2 * pi * (real i * (600 / 599)) / 600))) [0..<600]
      \<and> time_minutes r ! 300 * 60 = 300
      \<and> regen_power_profile r ! 300 \<le> 74.75
      \<and> 75.25 \<le> regen_power_profile r ! 299"
proof -
  let ?R = "map (\<lambda>i. 75 * (1 + sin (2 * pi * (real i * (600 / 599)) / 600))) [0..<600]"
  have dt0: "(1::real) \<noteq> 0" by simp
  have s0: "0 \<le> py_int (600 / 1)" by (simp add: py_int_def)
  have N: "600 = nat (py_int (600 / 1))" by (simp add: py_int_def)
  have src: "(case None of None \<Rightarrow> default_regen 600 (py_int (600 / 1))
              | Some p \<Rightarrow> Inr p) = Inr ?R"
    by (simp add: py_int_def default_regen_600)
  have len: "600 \<le> length ?R" by simp
  from simulate_runs [OF dt0 s0 N src len, of 8 100 50 500]
  obtain h where
    run: "simulate_battery_scenario 8 100 600 1 None 50 500 =
          Inr \<lparr> time_minutes = map (\<lambda>i. real i * 1 / 60) [0..<600],
                soc_history_kwh = h, regen_power_profile = ?R,
                solar_power_profile = replicate 600 50,
                net_power_profile = map (\<lambda>i. ?R ! i + 50 - 500) [0..<600] \<rparr>"
    by blast
  have "?R ! 300 = 75 * (1 + sin (2 * pi * (real 300 * (600 / 599)) / 600))"
    by simp
  then have a: "?R ! 300 = 75 * (1 - sin (pi / 599))"
    unfolding sin_after_half by simp
  have "?R ! 299 = 75 * (1 + sin (2 * pi * (real 299 * (600 / 599)) / 600))"
    by simp
  then have b: "?R ! 299 = 75 * (1 + sin (pi / 599))"
    unfolding sin_before_half by simp
  have t: "map (\<lambda>i. real i * 1 / 60) [0..<600] ! 300 * 60 = 300"
    by simp
  have a': "?R ! 300 \<le> 74.75" unfolding a using sin_small_angle by simp
  have b': "75.25 \<le> ?R ! 299" unfolding b using sin_small_angle by simp
  show ?thesis
    unfolding run using a' b' t by simp
qed

subsection \<open>The recorded state of charge in double precision\<close>

lemma binade_numeral:
  "binade (numeral k) x =
     (if 2 \<le> x then binade (pred_numeral k) (x / 2) + 1
      else if x < 1 then binade (pred_numeral k) (x * 2) - 1
      else 0)"
  by (simp add: numeral_eq_Suc)

lemmas f64_eval = f64_add_def f64_sub_def f64_mul_def f64_div_def round_binary64_def
  binade_numeral round_half_even_def Let_def

text \<open>
  Claim C1 says that every recorded state of charge lies between 0 and
  \<open>battery_capacity_kwh\<close>. The code clamps the state of charge in Wh to
  \<open>battery_capacity_kwh * 1000\<close> and divides by 1000 afterwards, and in doubles that round
  trip need not return to the capacity. For a full battery of 7.0197 kWh charging at a
  net 100 W for one second, the capacity in Wh is rounded up (a tie, resolved to the even
  significand), the clamp holds the state of charge at that value, and the recorded
  value is the next double above the capacity.
\<close>

theorem recorded_soc_exceeds_capacity_in_doubles:
  "round_binary64 7.0197 = 123491868375987 / 17592186044416
   \<and> simulate_battery_scenario_f64 (123491868375987 / 17592186044416) 100 1 1 [0] 600 500 =
       Inr \<lparr> time_minutes = [0],
             soc_history_kwh = [7903479576063169 / 1125899906842624],
             regen_power_profile = [0],
             solar_power_profile = [600],
             net_power_profile = [100] \<rparr>
   \<and> (123491868375987 / 17592186044416 :: real) < 7903479576063169 / 1125899906842624"
proof -
  have c: "round_binary64 7.0197 = 123491868375987 / 17592186044416"
    by (simp add: f64_eval)
  have cw: "f64_mul (123491868375987 / 17592186044416) 1000 = 1929560443374797 / 274877906944"
    by (simp add: f64_eval)
  have full: "f64_mul (f64_div 100 100) (1929560443374797 / 274877906944) =
      1929560443374797 / 274877906944"
    by (simp add: f64_eval)
  have d: "f64_div 1 3600 = 5124095576030431 / 18446744073709551616"
    by (simp add: f64_eval)
  have ein: "f64_mul (f64_add 0 600) (5124095576030431 / 18446744073709551616) =
      6004799503160661 / 36028797018963968"
    by (simp add: f64_eval)
  have eout: "f64_mul 500 (5124095576030431 / 18446744073709551616) =
      2501999792983609 / 18014398509481984"
    by (simp add: f64_eval)
  have net: "f64_sub (6004799503160661 / 36028797018963968) (2501999792983609 / 18014398509481984) =
      1000799917193443 / 36028797018963968"
    by (simp add: f64_eval)
  have s1: "f64_add (1929560443374797 / 274877906944) (1000799917193443 / 36028797018963968) =
      482392019718053 / 68719476736"
    by (simp add: f64_eval)
  have clamp: "min (max (482392019718053 / 68719476736 :: real) 0) (1929560443374797 / 274877906944) =
      1929560443374797 / 274877906944"
    by simp
  have k: "f64_div (1929560443374797 / 274877906944) 1000 = 7903479576063169 / 1125899906842624"
    by (simp add: f64_eval)
  have np: "f64_sub (f64_add 0 600) 500 = 100"
    by (simp add: f64_eval)
  have q: "f64_div 1 1 = 1" by (simp add: f64_eval)
  have t0: "f64_div (f64_mul 0 1) 60 = 0" by (simp add: f64_eval)
  have run: "simulate_battery_scenario_f64 (123491868375987 / 17592186044416) 100 1 1 [0] 600 500 =
       Inr \<lparr> time_minutes = [0],
             soc_history_kwh = [7903479576063169 / 1125899906842624],
             regen_power_profile = [0],
             solar_power_profile = [600],
             net_power_profile = [100] \<rparr>"
    by (simp add: simulate_battery_scenario_f64_def py_truediv_f64_def py_int_def np_full_def
        np_arange_def py_getitem_def cw full d ein eout net s1 clamp k np q t0)
  have lt: "(123491868375987 / 17592186044416 :: real) < 7903479576063169 / 1125899906842624"
    by simp
  from c run lt show ?thesis by blast
qed

section \<open>Properties of the motor model\<close>

lemma linspace_unit_3: "np_linspace 0 1 3 = Inr [0, 1 / 2, 1]"
  by (simp add: np_linspace_def upt_rec numeral_3_eq_3)

lemma back_emf_value:
  "back_emf s =
     Inr [emf_constant * sin (s * 0 * num_poles + 0),
          emf_constant * sin (s * (1 / 2) * num_poles + (- 2 * pi / 3)),
          emf_constant * sin (s * 1 * num_poles + 2 * pi / 3)]"
  by (simp add: back_emf_def linspace_unit_3 np_elementwise_def)

text \<open>
  Claim C4. For every rotor speed \<open>s\<close>, \<open>back_emf s\<close> is the three-element vector whose
  \<open>k\<close>-th entry is \<open>emf_constant * sin (s * v\<^sub>k * num_poles + offset\<^sub>k)\<close>, where
  \<open>(0, 1/2, 1)\<close> is the linearly spaced vector and the offsets are \<open>0\<close>, \<open>- 2 * pi / 3\<close>
  and \<open>2 * pi / 3\<close>. The three phases therefore use three different angles: at the speed
  \<open>pi / 24\<close> the result differs from the shared-angle model.
\<close>

theorem back_emf_formula:
  "np_linspace 0 1 3 = Inr [0, 1 / 2, 1]
   \<and> back_emf s =
       Inr [emf_constant * sin (s * 0 * num_poles + 0),
            emf_constant * sin (s * (1 / 2) * num_poles + (- 2 * pi / 3)),
            emf_constant * sin (s * 1 * num_poles + 2 * pi / 3)]
   \<and> back_emf (pi / 24) \<noteq> Inr (shared_angle_emf (pi / 24))"
proof -
  have "sin (pi / 24 * num_poles) = 1"
    by (simp add: num_poles_def)
  then have "back_emf (pi / 24) \<noteq> Inr (shared_angle_emf (pi / 24))"
    by (simp add: back_emf_value shared_angle_emf_def emf_constant_def)
  then show ?thesis
    using linspace_unit_3 back_emf_value [of s] by simp
qed

text \<open>
  Claim C5. For every state vector \<open>[speed, ia, ib, ic]\<close> the derivative function returns
  four values in this order: the torque (the dot product of the currents with the back
  EMF at that speed) minus the load torque, over the rotor inertia; then, for each
  phase, the phase EMF minus resistance times the phase current, over the inductance.
\<close>

theorem bldc_gen_model_formula:
  "\<exists>e0 e1 e2. back_emf speed = Inr [e0, e1, e2] \<and>
     bldc_gen_model t [speed, ia, ib, ic] =
       Inr [(ia * e0 + ib * e1 + ic * e2 - load_torque) / rotor_inertia,
            (e0 - resistance * ia) / inductance,
            (e1 - resistance * ib) / inductance,
            (e2 - resistance * ic) / inductance]"
  by (simp add: bldc_gen_model_def back_emf_value py_getitem_def np_dot_def np_elementwise_def)

lemma rectify_equal_lengths:
  assumes "length ia = n" "length ib = n" "length ic = n"
  shows "rectify_dc ia ib ic =
     Inr (map (\<lambda>k. mean3 (clamp_nonneg (ia ! k)) (clamp_nonneg (ib ! k)) (clamp_nonneg (ic ! k)))
            [0..<n])"
  using assms
  by (auto simp: rectify_dc_def np_elementwise_def np_maximum0_def mean3_def clamp_nonneg_def
      max_def intro!: nth_equalityI)

lemma mean3_clamped_nonneg: "0 \<le> mean3 (clamp_nonneg a) (clamp_nonneg b) (clamp_nonneg c)"
  by (simp add: mean3_def clamp_nonneg_def)

text \<open>
  Claim C8. For three phase-current sequences of one common length (a triple of single
  values being the case of length one), \<open>rectify_dc\<close> returns, sample by sample, the mean
  of the three currents after each has been clamped to be non-negative; every sample of
  the output is therefore non-negative.
\<close>

theorem rectify_dc_mean_nonneg:
  assumes "length ia = n" "length ib = n" "length ic = n"
  shows "\<exists>out. rectify_dc ia ib ic = Inr out
           \<and> out = map (\<lambda>k. mean3 (clamp_nonneg (ia ! k)) (clamp_nonneg (ib ! k))
                                (clamp_nonneg (ic ! k))) [0..<n]
           \<and> list_all (\<lambda>v. 0 \<le> v) out"
  unfolding rectify_equal_lengths [OF assms]
  by (simp add: list_all_iff mean3_clamped_nonneg)

text \<open>Two samples with currents of either sign.\<close>

theorem rectify_dc_mean_nonneg_witness:
  "length [- 3, 6 :: real] = 2 \<and> length [9, - 1 :: real] = 2 \<and> length [- 6, 0 :: real] = 2
   \<and> (\<exists>out. rectify_dc [- 3, 6] [9, - 1] [- 6, 0] = Inr out
          \<and> out = map (\<lambda>k. mean3 (clamp_nonneg ([- 3, 6] ! k)) (clamp_nonneg ([9, - 1] ! k))
                               (clamp_nonneg ([- 6, 0] ! k))) [0..<2]
          \<and> list_all (\<lambda>v. 0 \<le> v) out)"
  using rectify_dc_mean_nonneg [where ia = "[- 3, 6]" and ib = "[9, - 1]" and ic = "[- 6, 0]"
      and n = 2]
  by simp

end
